theory Spec2Isabelle
  imports Complex_Main "HOL-Library.List_Lexorder"
begin

section \<open>Strings, bytes and files\<close>

text \<open>
  A Python \<open>str\<close> is a sequence of Unicode code points, so it is modelled as a list of
  naturals: \<open>len\<close> is \<open>length\<close>, and \<open>sorted\<close> on strings is the lexicographic order on
  code points, which is the order of \<open>HOL-Library.List_Lexorder\<close>. File contents are bytes,
  modelled as 8-bit characters. A path is the string it is printed as. The storage
  directory is a partial map from paths to contents; directories themselves are not modelled.
\<close>

type_synonym str = "nat list"
type_synonym bytes = string
type_synonym path = str
type_synonym fs = "path \<rightharpoonup> bytes"

definition py_str :: "string \<Rightarrow> str" where
  "py_str s = map of_char s"

text \<open>HTTP failures: \<open>abort(400)\<close>, \<open>abort(403)\<close>, \<open>abort(404)\<close>, \<open>abort(410)\<close>, \<open>abort(415)\<close>;
  any other exception leaving the view is answered with 500.\<close>

datatype error = BadRequest | Forbidden | NotFound | Gone | UnsupportedMediaType | InternalError

fun http_status :: "error \<Rightarrow> nat" where
  "http_status BadRequest = 400"
| "http_status Forbidden = 403"
| "http_status NotFound = 404"
| "http_status Gone = 410"
| "http_status UnsupportedMediaType = 415"
| "http_status InternalError = 500"

section \<open>Shared abstractions (base\_redactor.py)\<close>

text \<open>The coordinates are Python floats; they are only carried around and added once, and
  no property below depends on their values, so they are modelled as reals.\<close>

record RedactionRegion =
  page :: int
  reg_x :: real
  reg_y :: real
  reg_w :: real
  reg_h :: real

record RedactionRequest =
  file_id :: str
  source_path :: path
  output_path :: path
  regions :: "RedactionRegion list"
  patterns_applied :: "str list"
  custom_terms :: "str list"
  matched_texts :: "str list"
  requested_by :: str

record RedactionResult =
  redacted_path :: path
  sha256 :: str
  total_regions :: nat
  removed_terms :: "str list"

section \<open>PDF redactor (pdf\_redactor.py)\<close>

text \<open>
  PyMuPDF is an external library. A loaded page is its content (text layer and images, of
  an arbitrary type \<open>'c\<close>) together with the redaction annotations registered on it so far.
  Registering an annotation does not touch the content: only \<open>apply_redactions\<close> does. The
  library is a record of its operations, each of which may raise (\<open>None\<close>) where the real one
  can: opening a file that is not a PDF, registering an annotation on a rectangle the
  library rejects, saving. \<open>doc.save\<close> is called without \<open>no_new_id\<close>, so every save stamps
  a fresh identifier into the trailer of the file it writes: the bytes saved are not
  determined by the pages alone. That identifier is the first argument of \<open>fitz_save\<close>.
\<close>

datatype rect = Rect real real real real

record 'c pdf_page =
  content :: 'c
  annots :: "rect list"

record 'c fitz =
  fitz_open :: "bytes \<Rightarrow> 'c list option"
  search_for :: "'c \<Rightarrow> str \<Rightarrow> rect list"
  rect_accepted :: "rect \<Rightarrow> bool"
  page_apply_redactions :: "'c \<Rightarrow> rect list \<Rightarrow> 'c"
  fitz_save :: "bytes \<Rightarrow> 'c list \<Rightarrow> bytes option"

definition add_redact_annot :: "'c fitz \<Rightarrow> 'c pdf_page \<Rightarrow> rect \<Rightarrow> 'c pdf_page option" where
  "add_redact_annot lib pg r =
     (if rect_accepted lib r then Some (pg\<lparr>annots := annots pg @ [r]\<rparr>) else None)"

text \<open>\<open>for rect in found: page.add_redact_annot(rect, fill=(0, 0, 0))\<close>\<close>

fun mark_found :: "'c fitz \<Rightarrow> 'c pdf_page \<Rightarrow> rect list \<Rightarrow> 'c pdf_page option" where
  "mark_found lib pg [] = Some pg"
| "mark_found lib pg (r # rs) =
     (case add_redact_annot lib pg r of
        None \<Rightarrow> None
      | Some pg' \<Rightarrow> mark_found lib pg' rs)"

text \<open>The inner loop \<open>for term in self.request.matched_texts\<close> on one page; the last
  argument is the list \<open>redacted_terms\<close> accumulated so far.\<close>

fun search_terms ::
  "'c fitz \<Rightarrow> 'c pdf_page \<Rightarrow> str list \<Rightarrow> str list \<Rightarrow> ('c pdf_page \<times> str list) option" where
  "search_terms lib pg [] redacted_terms = Some (pg, redacted_terms)"
| "search_terms lib pg (tm # tms) redacted_terms =
     (if tm = [] then search_terms lib pg tms redacted_terms
      else
        (let found = search_for lib (content pg) tm in
         case mark_found lib pg found of
           None \<Rightarrow> None
         | Some pg' \<Rightarrow>
             search_terms lib pg' tms
               (if found \<noteq> [] then redacted_terms @ [tm] else redacted_terms)))"

text \<open>The outer loop \<open>for page_index in range(doc.page_count)\<close>.\<close>

fun search_pages ::
  "'c fitz \<Rightarrow> 'c pdf_page list \<Rightarrow> str list \<Rightarrow> str list \<Rightarrow> ('c pdf_page list \<times> str list) option" where
  "search_pages lib [] tms redacted_terms = Some ([], redacted_terms)"
| "search_pages lib (pg # pgs) tms redacted_terms =
     (case search_terms lib pg tms redacted_terms of
        None \<Rightarrow> None
      | Some (pg', redacted_terms') \<Rightarrow>
          (case search_pages lib pgs tms redacted_terms' of
             None \<Rightarrow> None
           | Some (pgs', redacted_terms'') \<Rightarrow> Some (pg' # pgs', redacted_terms'')))"

text \<open>The loop \<open>for region in self.request.regions\<close>: a region whose page is out of range is
  skipped, any other is registered on its page.\<close>

definition region_rect :: "RedactionRegion \<Rightarrow> rect" where
  "region_rect region =
     Rect (reg_x region) (reg_y region) (reg_x region + reg_w region) (reg_y region + reg_h region)"

fun mark_regions ::
  "'c fitz \<Rightarrow> 'c pdf_page list \<Rightarrow> RedactionRegion list \<Rightarrow> 'c pdf_page list option" where
  "mark_regions lib doc [] = Some doc"
| "mark_regions lib doc (region # rs) =
     (if page region < 0 \<or> page region \<ge> int (length doc) then mark_regions lib doc rs
      else
        (case add_redact_annot lib (doc ! nat (page region)) (region_rect region) of
           None \<Rightarrow> None
         | Some pg' \<Rightarrow> mark_regions lib (doc[nat (page region) := pg']) rs))"

text \<open>A region is registered exactly when the guard of the loop does not skip it; the number
  of annotations a document carries counts what has been registered.\<close>

definition in_bounds :: "nat \<Rightarrow> RedactionRegion \<Rightarrow> bool" where
  "in_bounds page_count region = (\<not> (page region < 0 \<or> page region \<ge> int page_count))"

definition annot_count :: "'c pdf_page list \<Rightarrow> nat" where
  "annot_count doc = sum_list (map (\<lambda>pg. length (annots pg)) doc)"

text \<open>\<open>page.apply_redactions(images=fitz.PDF_REDACT_IMAGE_REMOVE)\<close> on every page.\<close>

definition apply_all_pages :: "'c fitz \<Rightarrow> 'c pdf_page list \<Rightarrow> 'c list" where
  "apply_all_pages lib doc = map (\<lambda>pg. page_apply_redactions lib (content pg) (annots pg)) doc"

text \<open>
  \<open>PDFRedactor.apply_redactions\<close>. The first argument after the library is
  \<open>hashlib.sha256(_).hexdigest()\<close>, the second the identifier that the save of this call
  stamps. The result is the \<open>RedactionResult\<close> and the file system with the output written;
  an exception leaves the file system as it was.
\<close>

definition PDFRedactor_apply_redactions ::
  "'c fitz \<Rightarrow> (bytes \<Rightarrow> str) \<Rightarrow> bytes \<Rightarrow> RedactionRequest \<Rightarrow> fs
     \<Rightarrow> error + (RedactionResult \<times> fs)" where
  "PDFRedactor_apply_redactions lib sha256_hexdigest save_id request files =
     (case files (source_path request) of
        None \<Rightarrow> Inl InternalError
      | Some src \<Rightarrow>
     (case fitz_open lib src of
        None \<Rightarrow> Inl InternalError
      | Some contents \<Rightarrow>
     (case search_pages lib (map (\<lambda>c. \<lparr>content = c, annots = []\<rparr>) contents)
             (matched_texts request) [] of
        None \<Rightarrow> Inl InternalError
      | Some (doc1, redacted_terms) \<Rightarrow>
     (case mark_regions lib doc1 (regions request) of
        None \<Rightarrow> Inl InternalError
      | Some doc2 \<Rightarrow>
     (case fitz_save lib save_id (apply_all_pages lib doc2) of
        None \<Rightarrow> Inl InternalError
      | Some saved \<Rightarrow>
          (let files' = files(output_path request \<mapsto> saved) in
           case files' (output_path request) of
             None \<Rightarrow> Inl InternalError
           | Some read_back \<Rightarrow>
               Inr (\<lparr>redacted_path = output_path request,
                     sha256 = sha256_hexdigest read_back,
                     total_regions = length (regions request),
                     removed_terms = sort (remdups redacted_terms)\<rparr>,
                    files')))))))"

section \<open>DOCX redactor (docx\_redactor.py)\<close>

text \<open>
  python-docx is an external library. The redactor reads and assigns \<open>paragraph.text\<close> and
  \<open>cell.text\<close> only, so a paragraph and a table cell are their text; a table is its rows of
  cells. Opening and saving may raise.
\<close>

record CoreProperties =
  author :: "str option"
  comments :: "str option"
  doc_keywords :: "str option"
  last_modified_by :: "str option"
  revision :: int
  subject :: "str option"
  title :: "str option"

record Document =
  paragraphs :: "str list"
  tables :: "str list list list"
  core_properties :: CoreProperties

record docx_lib =
  docx_open :: "bytes \<Rightarrow> Document option"
  docx_save :: "Document \<Rightarrow> bytes option"

text \<open>\<open>term in text\<close>: the term occurs as a contiguous substring.\<close>

fun str_in :: "'a list \<Rightarrow> 'a list \<Rightarrow> bool" where
  "str_in tm [] = (tm = [])"
| "str_in tm (c # s) = (take (length tm) (c # s) = tm \<or> str_in tm s)"

text \<open>\<open>text.replace(old, new)\<close>: every non-overlapping occurrence, from the left. For an empty
  \<open>old\<close> Python inserts \<open>new\<close> before every character and at the end.\<close>

function replace_nonempty :: "'a list \<Rightarrow> 'a list \<Rightarrow> 'a list \<Rightarrow> 'a list" where
  "replace_nonempty old new s =
     (if old = [] \<or> s = [] then s
      else if take (length old) s = old then new @ replace_nonempty old new (drop (length old) s)
      else hd s # replace_nonempty old new (tl s))"
  by pat_completeness auto
termination
  by (relation "measure (\<lambda>(old, new, s). length s)") auto

definition str_replace :: "'a list \<Rightarrow> 'a list \<Rightarrow> 'a list \<Rightarrow> 'a list" where
  "str_replace old new s =
     (if old = [] then new @ concat (map (\<lambda>c. c # new) s) else replace_nonempty old new s)"

text \<open>The fill \<open>"\<dots>" * len(term)\<close> of the full block character U+2588.\<close>

definition block_fill :: "str \<Rightarrow> str" where
  "block_fill tm = replicate (length tm) 9608"

text \<open>\<open>for term in terms: if term in text: text = text.replace(term, fill)\<close>, on one text.\<close>

fun redact_text :: "str list \<Rightarrow> str \<Rightarrow> str" where
  "redact_text [] text = text"
| "redact_text (tm # tms) text =
     redact_text tms (if str_in tm text then str_replace tm (block_fill tm) text else text)"

text \<open>
  The term set. Python builds a \<open>set\<close>; the model keeps its elements in a duplicate-free
  list, in the order of first insertion (the iteration order of a Python set is unspecified).
\<close>

definition docx_terms :: "RedactionRequest \<Rightarrow> str list" where
  "docx_terms request =
     remdups (filter (\<lambda>tm. tm \<noteq> []) (custom_terms request)
              @ patterns_applied request @ matched_texts request)"

definition strip_metadata :: "RedactionRequest \<Rightarrow> Document \<Rightarrow> Document" where
  "strip_metadata request doc =
     doc\<lparr>core_properties :=
           (core_properties doc)\<lparr>author := None, comments := None, doc_keywords := None,
             last_modified_by := Some (requested_by request), revision := 1,
             subject := None, title := None\<rparr>\<rparr>"

text \<open>The document after the substitution loops and the list \<open>removed_terms\<close>.\<close>

definition docx_substitute :: "RedactionRequest \<Rightarrow> Document \<Rightarrow> Document \<times> str list" where
  "docx_substitute request doc =
     (let terms = docx_terms request in
      if terms \<noteq> [] then
        (doc\<lparr>paragraphs := map (redact_text terms) (paragraphs doc),
              tables := map (map (map (redact_text terms))) (tables doc)\<rparr>,
         sort terms)
      else (doc, []))"

definition DOCXRedactor_apply_redactions ::
  "docx_lib \<Rightarrow> (bytes \<Rightarrow> str) \<Rightarrow> RedactionRequest \<Rightarrow> fs \<Rightarrow> error + (RedactionResult \<times> fs)" where
  "DOCXRedactor_apply_redactions lib sha256_hexdigest request files =
     (case files (source_path request) of
        None \<Rightarrow> Inl InternalError
      | Some src \<Rightarrow>
     (case docx_open lib src of
        None \<Rightarrow> Inl InternalError
      | Some doc \<Rightarrow>
     (case docx_substitute request doc of (doc1, removed) \<Rightarrow>
     (case docx_save lib (strip_metadata request doc1) of
        None \<Rightarrow> Inl InternalError
      | Some saved \<Rightarrow>
          (let files' = files(output_path request \<mapsto> saved) in
           case files' (output_path request) of
             None \<Rightarrow> Inl InternalError
           | Some read_back \<Rightarrow>
               Inr (\<lparr>redacted_path = output_path request,
                     sha256 = sha256_hexdigest read_back,
                     total_regions = length (regions request),
                     removed_terms = removed\<rparr>,
                    files'))))))"

section \<open>The redaction endpoint (api/redact.py)\<close>

subsection \<open>Catalog records, payload, response\<close>

text \<open>
  A catalog document is a dictionary. A key read with \<open>rec.get\<close> or \<open>rec[...]\<close> may be absent,
  so \<open>owner\<close>, \<open>original_name\<close>, \<open>enc_filename\<close>, \<open>aad\<close> and \<open>folder\<close> are options; the
  successor record sets every key. The keys \<open>size\<close> and \<open>sha256\<close> are named \<open>size_bytes\<close> and
  \<open>content_sha256\<close> here.
\<close>

record redaction_meta =
  meta_patterns :: "str list"
  meta_custom_terms :: "str list"
  meta_regions :: "RedactionRegion list"
  meta_removed_terms :: "str list"

record FileRecord =
  owner :: "str option"
  original_name :: "str option"
  enc_filename :: "str option"
  size_bytes :: nat
  created_at :: int
  aad :: "str option"
  content_sha256 :: str
  cid :: "str option"
  anchor_tx :: "str option"
  folder :: "str option"
  parent_file_id :: "str option"
  redaction_meta :: "redaction_meta option"

text \<open>
  The JSON body. \<open>file_id\<close> and \<open>passphrase\<close> may be absent. An entry of
  \<open>redaction_regions\<close> is \<open>Some\<close> of the region its fields convert to, or \<open>None\<close> when one of
  the conversions \<open>int(region["page"])\<close>, \<open>float(region["x"])\<close>, \<dots> raises \<open>KeyError\<close>,
  \<open>TypeError\<close> or \<open>ValueError\<close>. The three term lists are lists of strings, empty when absent.
\<close>

record payload =
  p_file_id :: "str option"
  p_passphrase :: "str option"
  p_redaction_regions :: "RedactionRegion option list"
  p_patterns_applied :: "str list"
  p_custom_terms :: "str list"
  p_matched_texts :: "str list"

record response =
  status :: str
  new_file_id :: str
  new_cid :: "str option"
  resp_hash :: str
  redacted_by :: str
  resp_anchor_tx :: "str option"

text \<open>What the endpoint reads and writes: the files of the storage directory, the \<open>files\<close>
  collection of the database (identifier and document, in insertion order), and the
  warnings of the application logger (the path each cleanup warning is about).\<close>

record world =
  files :: fs
  catalog :: "(str \<times> FileRecord) list"
  warnings :: "path list"

subsection \<open>Collaborators\<close>

text \<open>
  The modules \<open>core.crypto_cli\<close>, \<open>core.db\<close>, \<open>core.ipfs\<close> and \<open>api.files\<close>, the
  ledger behind \<open>core.onchain.anchor_file\<close>, the clock and the operating system are
  parameters of the endpoint:
  \<^item> \<open>lookup_file\<close> is \<open>_lookup_file\<close>: the record and its canonical identifier, or the
    failure it aborts with;
  \<^item> \<open>crypto_decrypt\<close> and \<open>crypto_encrypt\<close> take input path, output path, passphrase and
    AAD and return whether they succeeded and the files they leave behind (a failed call
    may leave a partial output);
  \<^item> \<open>ipfs_add_file\<close> and \<open>anchor_file\<close> return \<open>None\<close> when they return \<open>None\<close> or raise;
  \<^item> \<open>insert_one\<close> returns the identifier of the inserted document, or \<open>None\<close> when the
    database raises;
  \<^item> \<open>time_ms k\<close> is the value of \<open>int(time.time()*1000)\<close> at the \<open>k\<close>-th reading of the
    clock;
  \<^item> \<open>remove_fails p\<close> tells whether \<open>os.remove(p)\<close> raises \<open>OSError\<close>;
  \<^item> \<open>pdf_save_id\<close> is the identifier that the PDF save of this request stamps;
  \<^item> \<open>str_lower\<close> is Python's \<open>str.lower\<close>, the case mapping of Unicode, which is not
    modelled.
\<close>

record 'c env =
  pdf_lib :: "'c fitz"
  docx :: docx_lib
  sha256_hexdigest :: "bytes \<Rightarrow> str"
  ensure_storage_dir :: path
  generate_encrypted_filename :: str
  lookup_file :: "(str \<times> FileRecord) list \<Rightarrow> str \<Rightarrow> error + (FileRecord \<times> str)"
  crypto_decrypt :: "path \<Rightarrow> path \<Rightarrow> str \<Rightarrow> str option \<Rightarrow> fs \<Rightarrow> bool \<times> fs"
  crypto_encrypt :: "path \<Rightarrow> path \<Rightarrow> str \<Rightarrow> str option \<Rightarrow> fs \<Rightarrow> bool \<times> fs"
  ipfs_add_file :: "fs \<Rightarrow> path \<Rightarrow> str option"
  anchor_file :: "str \<Rightarrow> nat \<Rightarrow> str option \<Rightarrow> str option"
  insert_one :: "(str \<times> FileRecord) list \<Rightarrow> FileRecord \<Rightarrow> str option"
  time_ms :: "nat \<Rightarrow> int"
  remove_fails :: "path \<Rightarrow> bool"
  pdf_save_id :: bytes
  str_lower :: "str \<Rightarrow> str"

subsection \<open>Strings and paths\<close>

text \<open>\<open>str(n)\<close> for an integer: decimal digits, with a minus sign when negative.\<close>

fun digits :: "nat \<Rightarrow> str" where
  "digits n = (if n < 10 then [48 + n] else digits (n div 10) @ [48 + n mod 10])"

declare digits.simps [simp del]

definition str_of_int :: "int \<Rightarrow> str" where
  "str_of_int i = (if i < 0 then 45 # digits (nat (- i)) else digits (nat i))"

text \<open>\<open>dir / name\<close> and \<open>os.path.join(dir, name)\<close>: an absolute \<open>name\<close> replaces \<open>dir\<close>. The
  normalisation pathlib applies to the components of \<open>name\<close> is not modelled.\<close>

definition path_join :: "path \<Rightarrow> str \<Rightarrow> path" where
  "path_join dir name = (if name \<noteq> [] \<and> hd name = 47 then name else dir @ [47] @ name)"

text \<open>\<open>Path.name\<close> is the last component; \<open>Path.suffix\<close> is the part of the name from its last
  dot, when that dot is neither the first nor the last character of the name.\<close>

definition path_name :: "path \<Rightarrow> str" where
  "path_name p = rev (takeWhile (\<lambda>c. c \<noteq> 47) (rev p))"

definition path_suffix :: "path \<Rightarrow> str" where
  "path_suffix p =
     (let name = path_name p; ext = rev (takeWhile (\<lambda>c. c \<noteq> 46) (rev name)) in
      if 46 \<in> set name \<and> length ext + 1 < length name \<and> ext \<noteq> [] then 46 # ext else [])"

text \<open>The names of the two temporary plaintext files,
  \<open>f"dec_{int(time.time()*1000)}_{rec['original_name']}"\<close> and
  \<open>f"redacted_{int(time.time()*1000)}_{rec['original_name']}"\<close>.\<close>

definition tmp_plain_name :: "int \<Rightarrow> str \<Rightarrow> str" where
  "tmp_plain_name ms name = py_str ''dec_'' @ str_of_int ms @ py_str ''_'' @ name"

definition tmp_redacted_name :: "int \<Rightarrow> str \<Rightarrow> str" where
  "tmp_redacted_name ms name = py_str ''redacted_'' @ str_of_int ms @ py_str ''_'' @ name"

text \<open>Lines 91 and 92: the two paths, in the storage directory, at the first and the second
  reading of the clock.\<close>

definition tmp_plain_path :: "'c env \<Rightarrow> str \<Rightarrow> path" where
  "tmp_plain_path env name =
     path_join (ensure_storage_dir env) (tmp_plain_name (time_ms env 0) name)"

definition tmp_redacted_path :: "'c env \<Rightarrow> str \<Rightarrow> path" where
  "tmp_redacted_path env name =
     path_join (ensure_storage_dir env) (tmp_redacted_name (time_ms env 1) name)"

subsection \<open>Helpers of the endpoint\<close>

fun build_regions :: "RedactionRegion option list \<Rightarrow> error + RedactionRegion list" where
  "build_regions [] = Inr []"
| "build_regions (None # regions_raw) = Inl BadRequest"
| "build_regions (Some region # regions_raw) =
     (case build_regions regions_raw of
        Inl e \<Rightarrow> Inl e
      | Inr regs \<Rightarrow> Inr (region # regs))"

datatype redactor = PDFRedactor | DOCXRedactor

text \<open>\<open>_create_redactor\<close>; the first argument is \<open>str.lower\<close>.\<close>

definition create_redactor :: "(str \<Rightarrow> str) \<Rightarrow> RedactionRequest \<Rightarrow> error + redactor" where
  "create_redactor lower request_obj =
     (let suffix = lower (path_suffix (source_path request_obj)) in
      if suffix = py_str ''.pdf'' then Inr PDFRedactor
      else if suffix = py_str ''.docx'' then Inr DOCXRedactor
      else Inl UnsupportedMediaType)"

text \<open>\<open>redactor.apply_redactions()\<close>, dispatched on the variant.\<close>

fun apply_redactions ::
  "'c env \<Rightarrow> redactor \<Rightarrow> RedactionRequest \<Rightarrow> fs \<Rightarrow> error + (RedactionResult \<times> fs)" where
  "apply_redactions env PDFRedactor request fls =
     PDFRedactor_apply_redactions (pdf_lib env) (sha256_hexdigest env) (pdf_save_id env)
       request fls"
| "apply_redactions env DOCXRedactor request fls =
     DOCXRedactor_apply_redactions (docx env) (sha256_hexdigest env) request fls"

text \<open>The \<open>RedactionRequest\<close> of lines 102 to 111. \<open>matched_texts\<close> goes through a set
  comprehension that drops the empty entries and the duplicates; the order in which Python
  lists the set is unspecified, the model keeps the order of first occurrence.\<close>

definition make_request ::
  "payload \<Rightarrow> str \<Rightarrow> path \<Rightarrow> path \<Rightarrow> RedactionRegion list \<Rightarrow> str \<Rightarrow> RedactionRequest" where
  "make_request data canonical_id tmp_plain tmp_redacted regs requester =
     \<lparr>file_id = canonical_id,
      source_path = tmp_plain,
      output_path = tmp_redacted,
      regions = regs,
      patterns_applied = p_patterns_applied data,
      custom_terms = p_custom_terms data,
      matched_texts = remdups (filter (\<lambda>t. t \<noteq> []) (p_matched_texts data)),
      requested_by = requester\<rparr>"

subsection \<open>The view function\<close>

text \<open>
  Lines 115 to 162, after the redactor has returned: re-encryption, the size of the redacted
  plaintext, best-effort publication and anchoring, the insert and the response.
  \<open>os.path.getsize\<close> raises when the file is not there. Creating the directory of the
  new blob is left out, directories not being modelled.
\<close>

definition store_redacted ::
  "'c env \<Rightarrow> str \<Rightarrow> FileRecord \<Rightarrow> str \<Rightarrow> str \<Rightarrow> path \<Rightarrow> RedactionRequest \<Rightarrow> RedactionResult
     \<Rightarrow> world \<Rightarrow> (error + response) \<times> world" where
  "store_redacted env passphrase parent canonical_id requester tmp_redacted request result w =
     (let relative_enc_name = path_join (py_str ''redacted'') (generate_encrypted_filename env);
          new_enc_path = path_join (ensure_storage_dir env) relative_enc_name in
      case crypto_encrypt env tmp_redacted new_enc_path passphrase (aad parent) (files w) of
        (ok, fls) \<Rightarrow>
          (let w1 = w\<lparr>files := fls\<rparr> in
           if \<not> ok then (Inl InternalError, w1)
           else
             (case fls tmp_redacted of
                None \<Rightarrow> (Inl InternalError, w1)
              | Some redacted_bytes \<Rightarrow>
                  (let sz = length redacted_bytes;
                       published = ipfs_add_file env fls new_enc_path;
                       anchored = anchor_file env (sha256 result) sz published;
                       new_record =
                         \<lparr>owner = owner parent,
                          original_name = original_name parent,
                          enc_filename = Some relative_enc_name,
                          size_bytes = sz,
                          created_at = time_ms env 2,
                          aad = aad parent,
                          content_sha256 = sha256 result,
                          cid = published,
                          anchor_tx = anchored,
                          folder = folder parent,
                          parent_file_id = Some canonical_id,
                          redaction_meta =
                            Some \<lparr>meta_patterns = patterns_applied request,
                                  meta_custom_terms = custom_terms request,
                                  meta_regions = regions request,
                                  meta_removed_terms = removed_terms result\<rparr>\<rparr> in
                   case insert_one env (catalog w1) new_record of
                     None \<Rightarrow> (Inl InternalError, w1)
                   | Some inserted_id \<Rightarrow>
                       (Inr \<lparr>status = py_str ''success'',
                             new_file_id = inserted_id,
                             new_cid = published,
                             resp_hash = sha256 result,
                             redacted_by = requester,
                             resp_anchor_tx = anchored\<rparr>,
                        w1\<lparr>catalog := catalog w1 @ [(inserted_id, new_record)]\<rparr>)))))"

text \<open>The body of the \<open>try\<close> statement, lines 94 to 162.\<close>

definition redact_body ::
  "'c env \<Rightarrow> payload \<Rightarrow> str \<Rightarrow> FileRecord \<Rightarrow> str \<Rightarrow> str \<Rightarrow> path \<Rightarrow> path \<Rightarrow> path
     \<Rightarrow> world \<Rightarrow> (error + response) \<times> world" where
  "redact_body env data passphrase parent canonical_id requester enc_path tmp_plain tmp_redacted w =
     (case crypto_decrypt env enc_path tmp_plain passphrase (aad parent) (files w) of
        (ok, fls) \<Rightarrow>
          (let w1 = w\<lparr>files := fls\<rparr> in
           if \<not> ok then (Inl InternalError, w1)
           else
             (case build_regions (p_redaction_regions data) of
                Inl e \<Rightarrow> (Inl e, w1)
              | Inr regs \<Rightarrow>
                  (let request =
                         make_request data canonical_id tmp_plain tmp_redacted regs requester in
                   case create_redactor (str_lower env) request of
                     Inl e \<Rightarrow> (Inl e, w1)
                   | Inr redactor \<Rightarrow>
                       (case apply_redactions env redactor request fls of
                          Inl e \<Rightarrow> (Inl e, w1)
                        | Inr (result, fls') \<Rightarrow>
                            store_redacted env passphrase parent canonical_id requester
                              tmp_redacted request result (w1\<lparr>files := fls'\<rparr>))))))"

text \<open>
  The \<open>finally\<close> clause, lines 163 to 169: each of the two paths is removed when it exists;
  an \<open>OSError\<close> of \<open>os.remove\<close> is caught and logged as a warning.
\<close>

definition remove_tmp :: "'c env \<Rightarrow> world \<Rightarrow> path \<Rightarrow> world" where
  "remove_tmp env w p =
     (case files w p of
        None \<Rightarrow> w
      | Some _ \<Rightarrow>
          if remove_fails env p then w\<lparr>warnings := warnings w @ [p]\<rparr>
          else w\<lparr>files := (files w)(p := None)\<rparr>)"

definition cleanup :: "'c env \<Rightarrow> path \<Rightarrow> path \<Rightarrow> world \<Rightarrow> world" where
  "cleanup env tmp_plain tmp_redacted w = remove_tmp env (remove_tmp env w tmp_plain) tmp_redacted"

text \<open>
  \<open>redact_file\<close>, for the parsed JSON body \<open>data\<close> and the authenticated \<open>request.address\<close>.
  A value of the body that is absent or empty is falsy. The result is the response (or the
  failure the request is answered with) and the world the request leaves behind.
\<close>

definition redact_file ::
  "'c env \<Rightarrow> payload \<Rightarrow> str \<Rightarrow> world \<Rightarrow> (error + response) \<times> world" where
  "redact_file env data address w =
     (case p_file_id data of
        None \<Rightarrow> (Inl BadRequest, w)
      | Some fid \<Rightarrow>
     if fid = [] then (Inl BadRequest, w)
     else
     (case p_passphrase data of
        None \<Rightarrow> (Inl BadRequest, w)
      | Some passphrase \<Rightarrow>
     if passphrase = [] then (Inl BadRequest, w)
     else
     (case lookup_file env (catalog w) fid of
        Inl e \<Rightarrow> (Inl e, w)
      | Inr (parent, canonical_id) \<Rightarrow>
     (let requester = str_lower env address in
      if owner parent \<noteq> Some requester then (Inl Forbidden, w)
      else
     (case enc_filename parent of
        None \<Rightarrow> (Inl InternalError, w)
      | Some enc_name \<Rightarrow>
     (let enc_path = path_join (ensure_storage_dir env) enc_name in
      if files w enc_path = None then (Inl Gone, w)
      else
     (case original_name parent of
        None \<Rightarrow> (Inl InternalError, w)
      | Some name \<Rightarrow>
     (let tmp_plain = tmp_plain_path env name;
          tmp_redacted = tmp_redacted_path env name in
      case redact_body env data passphrase parent canonical_id requester enc_path
             tmp_plain tmp_redacted w of
        (outcome, w') \<Rightarrow> (outcome, cleanup env tmp_plain tmp_redacted w')))))))))"

section \<open>A worked instance\<close>

text \<open>
  A small concrete setting on which the definitions can be run: a PDF library whose
  documents have one page holding the bytes of the file, a DOCX library whose documents have
  one paragraph, a store with one encrypted blob and a catalog with one record owned by
  \<open>alice\<close>. The digest is replaced by the identity on the bytes, which is enough to tell
  which bytes were hashed. The PDF library appends the identifier of the save to the bytes
  it writes. Lower-casing is that of the ASCII letters.
\<close>

definition ascii_lower :: "str \<Rightarrow> str" where
  "ascii_lower s = map (\<lambda>c. if 65 \<le> c \<and> c \<le> 90 then c + 32 else c) s"

definition result_of :: "error + ('a \<times> 'b) \<Rightarrow> 'a option" where
  "result_of r = (case r of Inl e \<Rightarrow> None | Inr (res, fls) \<Rightarrow> Some res)"

definition example_pdf :: "bytes fitz" where
  "example_pdf =
     \<lparr>fitz_open = (\<lambda>b. Some [b]),
      search_for = (\<lambda>c tm. if str_in tm (py_str c) then [Rect 0 0 1 1] else []),
      rect_accepted = (\<lambda>r. True),
      page_apply_redactions = (\<lambda>c rs. if rs = [] then c else ''#''),
      fitz_save = (\<lambda>ident cs. Some (concat cs @ ident))\<rparr>"

definition example_docx :: docx_lib where
  "example_docx =
     \<lparr>docx_open = (\<lambda>b. Some \<lparr>paragraphs = [py_str b], tables = [],
          core_properties = \<lparr>author = Some (py_str ''ann''), comments = None, doc_keywords = None,
            last_modified_by = None, revision = 7, subject = None, title = None\<rparr>\<rparr>),
      docx_save = (\<lambda>d. Some (concat (map (map (\<lambda>c. if c = 9608 then CHR ''#'' else CHR ''.''))
                                     (paragraphs d))))\<rparr>"

definition example_env :: "bytes env" where
  "example_env =
     \<lparr>pdf_lib = example_pdf,
      docx = example_docx,
      sha256_hexdigest = py_str,
      ensure_storage_dir = py_str ''/srv'',
      generate_encrypted_filename = py_str ''blob'',
      lookup_file = (\<lambda>cat fid. case map_of cat fid of None \<Rightarrow> Inl NotFound | Some r \<Rightarrow> Inr (r, fid)),
      crypto_decrypt = (\<lambda>src dst pw ad fls.
         case fls src of None \<Rightarrow> (False, fls)
         | Some b \<Rightarrow> if pw = py_str ''pw'' then (True, fls(dst \<mapsto> b)) else (False, fls(dst \<mapsto> ''''))),
      crypto_encrypt = (\<lambda>src dst pw ad fls.
         case fls src of None \<Rightarrow> (False, fls) | Some b \<Rightarrow> (True, fls(dst \<mapsto> rev b))),
      ipfs_add_file = (\<lambda>fls p. None),
      anchor_file = (\<lambda>h sz c. None),
      insert_one = (\<lambda>cat r. Some (digits (length cat))),
      time_ms = (\<lambda>k. 1000 + int k),
      remove_fails = (\<lambda>p. False),
      pdf_save_id = ''A'',
      str_lower = ascii_lower\<rparr>"

definition example_parent :: FileRecord where
  "example_parent =
     \<lparr>owner = Some (py_str ''alice''), original_name = Some (py_str ''a.pdf''),
      enc_filename = Some (py_str ''e1''), size_bytes = 7, created_at = 1,
      aad = None, content_sha256 = [], cid = None, anchor_tx = None, folder = None,
      parent_file_id = None, redaction_meta = None\<rparr>"

definition example_world :: world where
  "example_world =
     \<lparr>files = [py_str ''/srv/e1'' \<mapsto> ''SSN 123''],
      catalog = [(py_str ''f1'', example_parent)],
      warnings = []\<rparr>"

definition example_payload :: payload where
  "example_payload =
     \<lparr>p_file_id = Some (py_str ''f1''), p_passphrase = Some (py_str ''pw''),
      p_redaction_regions = [Some \<lparr>page = 0, reg_x = 0, reg_y = 0, reg_w = 1, reg_h = 1\<rparr>,
                             Some \<lparr>page = 5, reg_x = 0, reg_y = 0, reg_w = 1, reg_h = 1\<rparr>],
      p_patterns_applied = [py_str ''ssn''], p_custom_terms = [],
      p_matched_texts = [py_str ''123'', py_str ''zzz'']\<rparr>"

definition example_response :: response where
  "example_response =
     \<lparr>status = py_str ''success'', new_file_id = py_str ''1'', new_cid = None,
      resp_hash = py_str ''#A'', redacted_by = py_str ''alice'', resp_anchor_tx = None\<rparr>"

definition example_request :: RedactionRequest where
  "example_request =
     \<lparr>file_id = py_str ''f1'', source_path = py_str ''/srv/in.pdf'',
      output_path = py_str ''/srv/out.pdf'',
      regions = [\<lparr>page = 0, reg_x = 0, reg_y = 0, reg_w = 1, reg_h = 1\<rparr>,
                 \<lparr>page = 5, reg_x = 0, reg_y = 0, reg_w = 1, reg_h = 1\<rparr>],
      patterns_applied = [], custom_terms = [py_str ''secret''],
      matched_texts = [py_str ''123'', py_str ''zzz''],
      requested_by = py_str ''alice''\<rparr>"

definition example_files :: fs where
  "example_files = [py_str ''/srv/in.pdf'' \<mapsto> ''SSN 123'']"

definition example_result :: RedactionResult where
  "example_result =
     \<lparr>redacted_path = py_str ''/srv/out.pdf'', sha256 = py_str ''#A'', total_regions = 2,
      removed_terms = [py_str ''123'']\<rparr>"

definition example_env_later :: "bytes env" where
  "example_env_later =
     example_env\<lparr>generate_encrypted_filename := py_str ''blob2'',
                  time_ms := (\<lambda>k. if k < 2 then 1000 + int k else 1009)\<rparr>"

definition example_payload_later :: payload where
  "example_payload_later = example_payload\<lparr>p_custom_terms := [py_str ''x'']\<rparr>"

definition example_request_later :: RedactionRequest where
  "example_request_later =
     example_request\<lparr>custom_terms := [], patterns_applied := [py_str ''ssn'']\<rparr>"


definition example_docx_request :: RedactionRequest where
  "example_docx_request =
     example_request\<lparr>source_path := py_str ''/srv/in.docx'',
                      output_path := py_str ''/srv/out.docx'', matched_texts := []\<rparr>"

definition example_docx_files :: fs where
  "example_docx_files = [py_str ''/srv/in.docx'' \<mapsto> ''hello'']"

section \<open>Properties of the PDF redactor\<close>

lemma add_redact_annot_content:
  "add_redact_annot lib pg r = Some pg' \<Longrightarrow> content pg' = content pg"
  by (auto simp: add_redact_annot_def split: if_splits)

lemma mark_found_content:
  "mark_found lib pg rs = Some pg' \<Longrightarrow> content pg' = content pg"
proof (induction rs arbitrary: pg)
  case Nil
  then show ?case by simp
next
  case (Cons r rs)
  then show ?case
    by (auto split: option.splits dest: add_redact_annot_content)
qed

lemma search_terms_result:
  "search_terms lib pg tms acc = Some (pg', acc') \<Longrightarrow>
     content pg' = content pg \<and>
     set acc' = set acc \<union> {tm \<in> set tms. tm \<noteq> [] \<and> search_for lib (content pg) tm \<noteq> []}"
proof (induction tms arbitrary: pg acc)
  case Nil
  then show ?case by simp
next
  case (Cons tm tms)
  show ?case
  proof (cases "tm = []")
    case True
    with Cons.prems have "search_terms lib pg tms acc = Some (pg', acc')" by simp
    from Cons.IH [OF this] True show ?thesis by auto
  next
    case False
    let ?found = "search_for lib (content pg) tm"
    from Cons.prems False obtain pg1 where
      m: "mark_found lib pg ?found = Some pg1" and
      r: "search_terms lib pg1 tms (if ?found \<noteq> [] then acc @ [tm] else acc) = Some (pg', acc')"
      by (auto simp: Let_def split: option.splits)
    have c: "content pg1 = content pg" using m by (rule mark_found_content)
    from Cons.IH [OF r] c False show ?thesis by auto
  qed
qed

lemma search_pages_result:
  "search_pages lib pgs tms acc = Some (pgs', acc') \<Longrightarrow>
     map content pgs' = map content pgs \<and>
     set acc' = set acc \<union> {tm \<in> set tms. tm \<noteq> [] \<and> (\<exists>pg \<in> set pgs. search_for lib (content pg) tm \<noteq> [])}"
proof (induction pgs arbitrary: acc pgs')
  case Nil
  then show ?case by simp
next
  case (Cons pg pgs)
  from Cons.prems obtain pg1 acc1 pgs1 where
    a: "search_terms lib pg tms acc = Some (pg1, acc1)" and
    b: "search_pages lib pgs tms acc1 = Some (pgs1, acc')" and
    c: "pgs' = pg1 # pgs1"
    by (auto split: option.splits prod.splits)
  from search_terms_result [OF a] Cons.IH [OF b] c show ?case by auto
qed

lemma mark_regions_length:
  "mark_regions lib doc rs = Some doc' \<Longrightarrow> length doc' = length doc"
proof (induction rs arbitrary: doc)
  case Nil
  then show ?case by simp
next
  case (Cons r rs)
  then show ?case by (auto split: if_splits option.splits)
qed

lemma annot_count_update:
  "i < length doc \<Longrightarrow> add_redact_annot lib (doc ! i) r = Some pg' \<Longrightarrow>
     annot_count (doc[i := pg']) = Suc (annot_count doc)"
proof (induction doc arbitrary: i)
  case Nil
  then show ?case by simp
next
  case (Cons a doc)
  then show ?case
    by (cases i) (auto simp: annot_count_def add_redact_annot_def split: if_splits)
qed

lemma mark_regions_count:
  "mark_regions lib doc rs = Some doc' \<Longrightarrow>
     annot_count doc' = annot_count doc + length (filter (in_bounds (length doc)) rs)"
proof (induction rs arbitrary: doc)
  case Nil
  then show ?case by simp
next
  case (Cons r rs)
  show ?case
  proof (cases "in_bounds (length doc) r")
    case False
    with Cons.prems have "mark_regions lib doc rs = Some doc'" by (simp add: in_bounds_def)
    from Cons.IH [OF this] False show ?thesis by simp
  next
    case True
    then have i: "nat (page r) < length doc" by (auto simp: in_bounds_def)
    from Cons.prems True obtain pg' where
      a: "add_redact_annot lib (doc ! nat (page r)) (region_rect r) = Some pg'" and
      b: "mark_regions lib (doc[nat (page r) := pg']) rs = Some doc'"
      by (auto simp: in_bounds_def split: option.splits)
    from Cons.IH [OF b] annot_count_update [OF i a] True show ?thesis by simp
  qed
qed

lemma length_filter_all:
  "length (filter P xs) = length xs \<longleftrightarrow> (\<forall>x \<in> set xs. P x)"
proof (induction xs)
  case Nil
  then show ?case by simp
next
  case (Cons a xs)
  have "length (filter P xs) \<le> length xs" by (rule length_filter_le)
  then have "length (filter P xs) \<noteq> Suc (length xs)" by arith
  with Cons show ?case by auto
qed

lemma pdf_result_cases:
  assumes "PDFRedactor_apply_redactions lib H ident request fls = Inr (res, fls')"
  obtains src contents doc1 redacted_terms doc2 saved where
    "fls (source_path request) = Some src"
    "fitz_open lib src = Some contents"
    "search_pages lib (map (\<lambda>c. \<lparr>content = c, annots = []\<rparr>) contents) (matched_texts request) [] = Some (doc1, redacted_terms)"
    "mark_regions lib doc1 (regions request) = Some doc2"
    "fitz_save lib ident (apply_all_pages lib doc2) = Some saved"
    "fls' = fls(output_path request \<mapsto> saved)"
    "res = \<lparr>redacted_path = output_path request, sha256 = H saved,
            total_regions = length (regions request), removed_terms = sort (remdups redacted_terms)\<rparr>"
  using assms unfolding PDFRedactor_apply_redactions_def
  by (auto simp: Let_def split: option.splits prod.splits)

section \<open>Properties of the DOCX redactor\<close>

lemma docx_terms_set:
  "set (docx_terms request)
     = {tm \<in> set (custom_terms request). tm \<noteq> []} \<union> set (patterns_applied request)
       \<union> set (matched_texts request)"
  by (auto simp: docx_terms_def)

lemma docx_removed_terms:
  "DOCXRedactor_apply_redactions lib H request fls = Inr (result, fls')
     \<Longrightarrow> removed_terms result = sort (docx_terms request)"
  unfolding DOCXRedactor_apply_redactions_def docx_substitute_def
  by (auto simp: Let_def split: option.splits prod.splits if_splits)

section \<open>Properties of the endpoint\<close>

lemma remove_tmp_catalog: "catalog (remove_tmp env w p) = catalog w"
  by (simp add: remove_tmp_def split: option.splits)

lemma cleanup_catalog: "catalog (cleanup env p q w) = catalog w"
  by (simp add: cleanup_def remove_tmp_catalog)

lemma remove_tmp_gone:
  "files (remove_tmp env w p) p = None
     \<or> (remove_fails env p \<and> p \<in> set (warnings (remove_tmp env w p))
          \<and> files (remove_tmp env w p) p = files w p)"
  by (simp add: remove_tmp_def split: option.splits)

lemma remove_tmp_other:
  "files w q = None \<Longrightarrow> files (remove_tmp env w p) q = None"
  by (simp add: remove_tmp_def split: option.splits)

lemma remove_tmp_keeps:
  "files (remove_tmp env w p) q = None \<or> files (remove_tmp env w p) q = files w q"
  by (simp add: remove_tmp_def split: option.splits)

lemma remove_tmp_warnings:
  "set (warnings w) \<subseteq> set (warnings (remove_tmp env w p))"
  by (auto simp: remove_tmp_def split: option.splits)

lemma cleanup_removes:
  assumes "p = tmp_plain \<or> p = tmp_redacted"
  shows "files (cleanup env tmp_plain tmp_redacted w) p = None
     \<or> (remove_fails env p \<and> p \<in> set (warnings (cleanup env tmp_plain tmp_redacted w))
          \<and> files (cleanup env tmp_plain tmp_redacted w) p = files w p)"
proof (cases "p = tmp_redacted")
  case True
  have "files (cleanup env tmp_plain tmp_redacted w) tmp_redacted = None
     \<or> (remove_fails env tmp_redacted \<and> tmp_redacted \<in> set (warnings (cleanup env tmp_plain tmp_redacted w))
          \<and> files (cleanup env tmp_plain tmp_redacted w) tmp_redacted = files (remove_tmp env w tmp_plain) tmp_redacted)"
    unfolding cleanup_def by (rule remove_tmp_gone)
  moreover have "files (remove_tmp env w tmp_plain) tmp_redacted = None
      \<or> files (remove_tmp env w tmp_plain) tmp_redacted = files w tmp_redacted"
    by (rule remove_tmp_keeps)
  moreover have "files (remove_tmp env w tmp_plain) tmp_redacted = None \<Longrightarrow> files (cleanup env tmp_plain tmp_redacted w) tmp_redacted = None"
    unfolding cleanup_def by (rule remove_tmp_other)
  ultimately show ?thesis using True by auto
next
  case False
  with assms have p: "p = tmp_plain" by simp
  let ?w1 = "remove_tmp env w tmp_plain"
  have a: "files ?w1 tmp_plain = None
     \<or> (remove_fails env tmp_plain \<and> tmp_plain \<in> set (warnings ?w1) \<and> files ?w1 tmp_plain = files w tmp_plain)"
    by (rule remove_tmp_gone)
  have b: "files (remove_tmp env ?w1 tmp_redacted) tmp_plain = None
      \<or> files (remove_tmp env ?w1 tmp_redacted) tmp_plain = files ?w1 tmp_plain"
    by (rule remove_tmp_keeps)
  have c: "set (warnings ?w1) \<subseteq> set (warnings (remove_tmp env ?w1 tmp_redacted))"
    by (rule remove_tmp_warnings)
  from a b c p show ?thesis unfolding cleanup_def by auto
qed

lemma store_redacted_fail:
  "store_redacted env passphrase parent canonical_id requester tmp_redacted request result w = (Inl e, w')
     \<Longrightarrow> catalog w' = catalog w"
  unfolding store_redacted_def
  by (auto simp: Let_def split: prod.splits if_splits option.splits)


lemma redact_body_fail:
  "redact_body env data passphrase parent canonical_id requester enc_path tmp_plain tmp_redacted w = (Inl e, w')
     \<Longrightarrow> catalog w' = catalog w"
  unfolding redact_body_def
  by (auto simp: Let_def split: prod.splits if_splits option.splits sum.splits
           dest: store_redacted_fail)


lemma redact_file_cases:
  assumes "redact_file env data address w = (outcome, w')"
  shows "((\<exists>e. outcome = Inl e) \<and> w' = w)
     \<or> (\<exists>fid passphrase parent canonical_id enc_name name body_w.
           p_file_id data = Some fid \<and> fid \<noteq> []
         \<and> p_passphrase data = Some passphrase \<and> passphrase \<noteq> []
         \<and> lookup_file env (catalog w) fid = Inr (parent, canonical_id)
         \<and> owner parent = Some (str_lower env address)
         \<and> enc_filename parent = Some enc_name
         \<and> original_name parent = Some name
         \<and> redact_body env data passphrase parent canonical_id (str_lower env address)
               (path_join (ensure_storage_dir env) enc_name)
               (tmp_plain_path env name) (tmp_redacted_path env name) w = (outcome, body_w)
         \<and> w' = cleanup env (tmp_plain_path env name) (tmp_redacted_path env name) body_w)"
  using assms unfolding redact_file_def
  by (auto simp: Let_def split: option.splits if_splits sum.splits prod.splits)

lemma redact_file_elim:
  assumes "redact_file env data address w = (outcome, w')"
  obtains (rejected) e where "outcome = Inl e" "w' = w"
  | (staged) fid passphrase parent canonical_id enc_name name body_w where
      "p_file_id data = Some fid" "fid \<noteq> []"
      "p_passphrase data = Some passphrase" "passphrase \<noteq> []"
      "lookup_file env (catalog w) fid = Inr (parent, canonical_id)"
      "owner parent = Some (str_lower env address)"
      "enc_filename parent = Some enc_name"
      "original_name parent = Some name"
      "redact_body env data passphrase parent canonical_id (str_lower env address)
               (path_join (ensure_storage_dir env) enc_name)
               (tmp_plain_path env name) (tmp_redacted_path env name) w = (outcome, body_w)"
      "w' = cleanup env (tmp_plain_path env name) (tmp_redacted_path env name) body_w"
  using redact_file_cases [OF assms] by blast





section \<open>The names of the temporary files\<close>

lemma digits_nonempty: "digits n \<noteq> []"
  by (subst digits.simps) simp

lemma digits_range: "c \<in> set (digits n) \<Longrightarrow> 48 \<le> c \<and> c \<le> 57"
proof (induction n rule: digits.induct)
  case (1 n)
  show ?case
  proof (cases "n < 10")
    case True
    with "1.prems" show ?thesis by (subst (asm) digits.simps) simp
  next
    case False
    from "1.prems" False have "c \<in> set (digits (n div 10)) \<or> c = 48 + n mod 10"
      by (subst (asm) digits.simps) auto
    then show ?thesis
    proof
      assume "c \<in> set (digits (n div 10))"
      with "1.IH" False show ?thesis by simp
    next
      assume "c = 48 + n mod 10"
      moreover have "n mod 10 < 10" by simp
      ultimately show ?thesis by arith
    qed
  qed
qed

lemma digits_inj: "digits n = digits m \<Longrightarrow> n = m"
proof (induction n arbitrary: m rule: digits.induct)
  case (1 n)
  show ?case
  proof (cases "n < 10")
    case True
    note n = this
    show ?thesis
    proof (cases "m < 10")
      case True
      with n "1.prems" show ?thesis
        by (simp add: digits.simps [of n] digits.simps [of m])
    next
      case False
      with n "1.prems" have "digits (m div 10) = []"
        by (simp add: digits.simps [of n] digits.simps [of m])
      with digits_nonempty show ?thesis by blast
    qed
  next
    case False
    note n = this
    show ?thesis
    proof (cases "m < 10")
      case True
      with n "1.prems" have "digits (n div 10) = []"
        by (simp add: digits.simps [of n] digits.simps [of m])
      with digits_nonempty show ?thesis by blast
    next
      case False
      with n "1.prems" have a: "digits (n div 10) = digits (m div 10)" and b: "n mod 10 = m mod 10"
        by (simp_all add: digits.simps [of n] digits.simps [of m])
      from "1.IH" [OF n a] have "n div 10 = m div 10" .
      with b show ?thesis by (metis div_mult_mod_eq)
    qed
  qed
qed

lemma str_of_int_range: "c \<in> set (str_of_int i) \<Longrightarrow> c = 45 \<or> (48 \<le> c \<and> c \<le> 57)"
  by (auto simp: str_of_int_def dest: digits_range split: if_splits)

lemma str_of_int_inj: "str_of_int i = str_of_int j \<Longrightarrow> i = j"
proof -
  assume e: "str_of_int i = str_of_int j"
  have neg: "\<And>a b. 45 # digits a \<noteq> digits b"
  proof
    fix a b assume "45 # digits a = digits b"
    then have "45 \<in> set (digits b)" by (metis list.set_intros(1))
    from digits_range [OF this] show False by simp
  qed
  show ?thesis
  proof (cases "i < 0")
    case True
    note i = this
    show ?thesis
    proof (cases "j < 0")
      case True
      with i e have "digits (nat (- i)) = digits (nat (- j))" by (simp add: str_of_int_def)
      then have "nat (- i) = nat (- j)" by (rule digits_inj)
      with i True show ?thesis by simp
    next
      case False
      with i e neg [of "nat (- i)" "nat j"] show ?thesis by (simp add: str_of_int_def)
    qed
  next
    case False
    note i = this
    show ?thesis
    proof (cases "j < 0")
      case True
      with i e neg [of "nat (- j)" "nat i"] show ?thesis by (simp add: str_of_int_def)
    next
      case False
      with i e have "digits (nat i) = digits (nat j)" by (simp add: str_of_int_def)
      then have "nat i = nat j" by (rule digits_inj)
      with i False show ?thesis by simp
    qed
  qed
qed

lemma takeWhile_until: "c \<notin> set xs \<Longrightarrow> takeWhile (\<lambda>a. a \<noteq> c) (xs @ c # r) = xs"
  by (induction xs) auto

lemma split_at_separator:
  assumes "xs @ c # r = ys @ c # s" and "c \<notin> set xs" and "c \<notin> set ys"
  shows "xs = ys \<and> r = s"
proof -
  have "takeWhile (\<lambda>a. a \<noteq> c) (xs @ c # r) = xs" using assms(2) by (rule takeWhile_until)
  moreover have "takeWhile (\<lambda>a. a \<noteq> c) (ys @ c # s) = ys" using assms(3) by (rule takeWhile_until)
  ultimately have "xs = ys" using assms(1) by simp
  with assms(1) show ?thesis by simp
qed

lemma stamped_name_inj:
  assumes "str_of_int t1 @ 95 # n1 = str_of_int t2 @ 95 # n2"
  shows "t1 = t2 \<and> n1 = n2"
proof -
  have "95 \<notin> set (str_of_int t1)" "95 \<notin> set (str_of_int t2)"
    using str_of_int_range by fastforce+
  from split_at_separator [OF assms this] show ?thesis by (auto dest: str_of_int_inj)
qed

section \<open>Runs of the worked instance\<close>

lemmas example_defs = example_pdf_def example_docx_def example_env_def example_parent_def
  example_world_def example_payload_def example_response_def example_request_def
  example_files_def example_result_def

lemmas endpoint_defs = redact_file_def redact_body_def store_redacted_def cleanup_def
  remove_tmp_def tmp_plain_path_def tmp_redacted_path_def tmp_plain_name_def
  tmp_redacted_name_def str_of_int_def path_join_def ascii_lower_def py_str_def make_request_def
  create_redactor_def path_suffix_def path_name_def

lemmas redactor_defs = PDFRedactor_apply_redactions_def DOCXRedactor_apply_redactions_def
  apply_all_pages_def add_redact_annot_def region_rect_def docx_substitute_def docx_terms_def
  strip_metadata_def str_replace_def block_fill_def

lemma example_pdf_run:
  "PDFRedactor_apply_redactions example_pdf py_str ''A'' example_request example_files
     = Inr (example_result, example_files(py_str ''/srv/out.pdf'' \<mapsto> ''#A''))"
  by (simp add: example_defs redactor_defs py_str_def Let_def)



lemma example_run_wrong_passphrase:
  "fst (redact_file example_env (example_payload\<lparr>p_passphrase := Some (py_str ''no'')\<rparr>)
          (py_str ''Alice'') example_world) = Inl InternalError"
  by (simp add: example_defs endpoint_defs Let_def)

lemmas example_defs2 = example_env_later_def example_payload_later_def example_docx_request_def
  example_docx_files_def example_request_later_def

section \<open>The claims\<close>

subsection \<open>C1: a failed redaction inserts no record\<close>

text \<open>
  \<^bold>\<open>C1.\<close> Whenever the endpoint answers with a failure, whichever step failed (validation,
  lookup, authorization, a missing blob, decryption, region normalization, the choice of
  the redactor, the redaction, re-encryption, reading the size, or the insert itself), the
  catalog is the catalog the request found: the insert is the last step of the body.
\<close>

theorem failed_redaction_inserts_no_record:
  assumes run: "redact_file env data address w = (Inl e, w')"
  shows "catalog w' = catalog w"
  using run
proof (cases rule: redact_file_elim)
  case (rejected e')
  then show ?thesis by simp
next
  case (staged fid passphrase parent canonical_id enc_name name body_w)
  from redact_body_fail [OF staged(9)] have "catalog body_w = catalog w" .
  with staged(10) show ?thesis by (simp add: cleanup_catalog)
qed

text \<open>A request with a wrong passphrase fails at decryption and leaves the catalog alone.\<close>

theorem failed_redaction_inserts_no_record_witness:
  "fst (redact_file example_env (example_payload\<lparr>p_passphrase := Some (py_str ''no'')\<rparr>)
          (py_str ''Alice'') example_world) = Inl InternalError
   \<and> catalog (snd (redact_file example_env (example_payload\<lparr>p_passphrase := Some (py_str ''no'')\<rparr>)
          (py_str ''Alice'') example_world)) = catalog example_world"
proof -
  let ?r = "redact_file example_env (example_payload\<lparr>p_passphrase := Some (py_str ''no'')\<rparr>)
          (py_str ''Alice'') example_world"
  have f: "fst ?r = Inl InternalError" by (rule example_run_wrong_passphrase)
  then have "?r = (Inl InternalError, snd ?r)" by (metis prod.collapse)
  from failed_redaction_inserts_no_record [OF this] f show ?thesis by (rule conjI [rotated])
qed

subsection \<open>C2: the content hash is the digest of the redacted plaintext\<close>



subsection \<open>C3: \<open>total_regions\<close> of the PDF redactor\<close>

text \<open>
  As stated, C3 fails: \<open>total_regions\<close> is the length of the region list of the request,
  and a region that the loop skips is counted. On a document of one page, with one region
  on page 0 and one on page 5, \<open>total_regions\<close> is 2 while one region is in bounds.
\<close>

theorem pdf_total_regions_counts_skipped_region:
  "map_option total_regions
     (result_of (PDFRedactor_apply_redactions example_pdf py_str ''A'' example_request example_files))
     = Some 2
   \<and> map_option length (fitz_open example_pdf ''SSN 123'') = Some 1
   \<and> length (filter (in_bounds 1) (regions example_request)) = 1"
  by (simp add: example_pdf_run result_of_def)
     (simp add: example_defs in_bounds_def)

text \<open>
  \<^bold>\<open>C3, amended.\<close> For the PDF redactor, \<open>total_regions\<close> is the number of regions in the
  request, skipped ones included. The number of regions whose page lies in
  \<open>[0, pageCount)\<close> is the number of annotations the region loop registers on the
  document; it is at most \<open>total_regions\<close>, and equal to it exactly when every region of
  the request is in bounds.
\<close>

theorem pdf_total_regions_counts_all_regions:
  assumes run: "PDFRedactor_apply_redactions lib H ident request fls = Inr (res, fls')"
    and src: "fls (source_path request) = Some src"
    and doc: "fitz_open lib src = Some pages"
  shows "total_regions res = length (regions request)
       \<and> (\<exists>doc1 redacted_terms doc2.
             search_pages lib (map (\<lambda>c. \<lparr>content = c, annots = []\<rparr>) pages)
               (matched_texts request) [] = Some (doc1, redacted_terms)
           \<and> mark_regions lib doc1 (regions request) = Some doc2
           \<and> annot_count doc2
               = annot_count doc1 + length (filter (in_bounds (length pages)) (regions request)))
       \<and> length (filter (in_bounds (length pages)) (regions request)) \<le> total_regions res
       \<and> (length (filter (in_bounds (length pages)) (regions request)) = total_regions res
            \<longleftrightarrow> (\<forall>region \<in> set (regions request). in_bounds (length pages) region))"
proof -
  from run obtain src' contents doc1 redacted_terms doc2 where
    a: "fls (source_path request) = Some src'" and
    b: "fitz_open lib src' = Some contents" and
    c: "search_pages lib (map (\<lambda>c. \<lparr>content = c, annots = []\<rparr>) contents)
          (matched_texts request) [] = Some (doc1, redacted_terms)" and
    d: "mark_regions lib doc1 (regions request) = Some doc2" and
    t: "total_regions res = length (regions request)"
    by (auto elim!: pdf_result_cases)
  from a b src doc have e: "contents = pages" by simp
  from search_pages_result [OF c] have
    "map content doc1 = map content (map (\<lambda>c. \<lparr>content = c, annots = []\<rparr>) contents)"
    by simp
  then have "length (map content doc1)
               = length (map content (map (\<lambda>c. \<lparr>content = c, annots = []\<rparr>) contents))"
    by (rule arg_cong)
  then have len: "length doc1 = length pages" using e by simp
  from mark_regions_count [OF d] len have cnt:
    "annot_count doc2
       = annot_count doc1 + length (filter (in_bounds (length pages)) (regions request))"
    by simp
  have le: "length (filter (in_bounds (length pages)) (regions request)) \<le> total_regions res"
    unfolding t by (rule length_filter_le)
  have eq: "length (filter (in_bounds (length pages)) (regions request)) = total_regions res
            \<longleftrightarrow> (\<forall>region \<in> set (regions request). in_bounds (length pages) region)"
    unfolding t by (rule length_filter_all)
  from c [unfolded e] d cnt have ex:
    "\<exists>doc1 redacted_terms doc2.
             search_pages lib (map (\<lambda>c. \<lparr>content = c, annots = []\<rparr>) pages)
               (matched_texts request) [] = Some (doc1, redacted_terms)
           \<and> mark_regions lib doc1 (regions request) = Some doc2
           \<and> annot_count doc2
               = annot_count doc1 + length (filter (in_bounds (length pages)) (regions request))"
    by blast
  from t ex le eq show ?thesis by (intro conjI)
qed

theorem pdf_total_regions_counts_all_regions_witness:
  "total_regions example_result = 2
   \<and> length (filter (in_bounds (length [''SSN 123''])) (regions example_request)) = 1
   \<and> \<not> (\<forall>region \<in> set (regions example_request). in_bounds (length [''SSN 123'']) region)"
proof -
  have src: "example_files (source_path example_request) = Some ''SSN 123''"
    by (simp add: example_defs py_str_def)
  have doc: "fitz_open example_pdf ''SSN 123'' = Some [''SSN 123'']"
    by (simp add: example_defs)
  have cnt: "length (filter (in_bounds (length [''SSN 123''])) (regions example_request)) = 1"
    by (simp add: example_defs in_bounds_def)
  have tot: "length (regions example_request) = 2" by (simp add: example_defs)
  from pdf_total_regions_counts_all_regions [OF example_pdf_run src doc]
  have "total_regions example_result = length (regions example_request)"
    and "length (filter (in_bounds (length [''SSN 123''])) (regions example_request))
           = total_regions example_result
         \<longleftrightarrow> (\<forall>region \<in> set (regions example_request).
                in_bounds (length [''SSN 123'']) region)"
    by blast+
  with cnt tot show ?thesis by simp
qed

subsection \<open>C4: \<open>removed_terms\<close> of the DOCX redactor\<close>

text \<open>
  \<^bold>\<open>C4.\<close> The DOCX redactor returns the sorted list of all its terms as \<open>removed_terms\<close>
  (lemma \<open>docx_removed_terms\<close>), before it has looked at the document. Here the document
  is the single paragraph \<open>hello\<close> with no table, the only term is \<open>secret\<close>, which occurs
  nowhere, and \<open>secret\<close> is returned as removed.
\<close>

theorem docx_lists_absent_term_as_removed:
  "map_option removed_terms
     (result_of (DOCXRedactor_apply_redactions example_docx py_str example_docx_request
                   example_docx_files))
     = Some [py_str ''secret'']
   \<and> map_option paragraphs (docx_open example_docx ''hello'') = Some [py_str ''hello'']
   \<and> map_option tables (docx_open example_docx ''hello'') = Some []
   \<and> \<not> str_in (py_str ''secret'') (py_str ''hello'')"
  by (simp add: example_defs example_defs2 redactor_defs result_of_def py_str_def Let_def)

subsection \<open>C5: the temporary files are removed on every exit\<close>

text \<open>
  \<^bold>\<open>C5.\<close> Every run of the endpoint ends in one of two ways. Either the request is
  rejected before the temporary paths are computed, and then nothing has been written: the
  world is unchanged. Or the body of the \<open>try\<close> statement has run on the two temporary
  paths, and then, whatever its outcome, the outcome of the request is the outcome of the
  body, and each of the two paths is either absent afterwards, or its removal failed, a
  warning for it has been logged and the file is as the body left it.
\<close>

theorem temp_files_removed_on_every_exit:
  assumes run: "redact_file env data address w = (outcome, w')"
  shows "((\<exists>e. outcome = Inl e) \<and> w' = w)
     \<or> (\<exists>fid passphrase parent canonical_id enc_name name body_w.
           p_file_id data = Some fid
         \<and> lookup_file env (catalog w) fid = Inr (parent, canonical_id)
         \<and> original_name parent = Some name
         \<and> redact_body env data passphrase parent canonical_id (str_lower env address)
               (path_join (ensure_storage_dir env) enc_name)
               (tmp_plain_path env name) (tmp_redacted_path env name) w = (outcome, body_w)
         \<and> catalog w' = catalog body_w
         \<and> (\<forall>p \<in> {tmp_plain_path env name, tmp_redacted_path env name}.
               files w' p = None
             \<or> (remove_fails env p \<and> p \<in> set (warnings w') \<and> files w' p = files body_w p)))"
  using run
proof (cases rule: redact_file_elim)
  case (rejected e)
  then show ?thesis by simp
next
  case (staged fid passphrase parent canonical_id enc_name name body_w)
  let ?P = "tmp_plain_path env name" and ?R = "tmp_redacted_path env name"
  have 1: "files w' ?P = None
             \<or> (remove_fails env ?P \<and> ?P \<in> set (warnings w') \<and> files w' ?P = files body_w ?P)"
    unfolding staged(10) by (rule cleanup_removes) simp
  have 2: "files w' ?R = None
             \<or> (remove_fails env ?R \<and> ?R \<in> set (warnings w') \<and> files w' ?R = files body_w ?R)"
    unfolding staged(10) by (rule cleanup_removes) simp
  have 3: "catalog w' = catalog body_w"
    unfolding staged(10) by (rule cleanup_catalog)
  from 1 2 have 4: "\<forall>p \<in> {?P, ?R}. files w' p = None
             \<or> (remove_fails env p \<and> p \<in> set (warnings w') \<and> files w' p = files body_w p)"
    by simp
  from staged(1) staged(5) staged(8) staged(9) 3 4 show ?thesis by blast
qed

text \<open>With a wrong passphrase the decryption of the worked instance leaves an empty file at
  the staged path and fails; after the request neither temporary path exists.\<close>

theorem temp_files_removed_on_every_exit_witness:
  "fst (redact_file example_env (example_payload\<lparr>p_passphrase := Some (py_str ''no'')\<rparr>)
          (py_str ''Alice'') example_world) = Inl InternalError
   \<and> files (snd (redact_file example_env (example_payload\<lparr>p_passphrase := Some (py_str ''no'')\<rparr>)
          (py_str ''Alice'') example_world)) (tmp_plain_path example_env (py_str ''a.pdf'')) = None
   \<and> files (snd (redact_file example_env (example_payload\<lparr>p_passphrase := Some (py_str ''no'')\<rparr>)
          (py_str ''Alice'') example_world)) (tmp_redacted_path example_env (py_str ''a.pdf'')) = None"
proof -
  let ?data = "example_payload\<lparr>p_passphrase := Some (py_str ''no'')\<rparr>"
  let ?r = "redact_file example_env ?data (py_str ''Alice'') example_world"
  let ?P = "tmp_plain_path example_env (py_str ''a.pdf'')"
  let ?R = "tmp_redacted_path example_env (py_str ''a.pdf'')"
  have f: "fst ?r = Inl InternalError" by (rule example_run_wrong_passphrase)
  have r: "?r = (fst ?r, snd ?r)" by simp
  have init: "files example_world ?P = None" "files example_world ?R = None"
    by (simp_all add: example_defs endpoint_defs digits.simps)
  have ok: "\<not> remove_fails example_env ?P" "\<not> remove_fails example_env ?R"
    by (simp_all add: example_defs)
  from temp_files_removed_on_every_exit [OF r]
  have "files (snd ?r) ?P = None \<and> files (snd ?r) ?R = None"
  proof
    assume "(\<exists>e. fst ?r = Inl e) \<and> snd ?r = example_world"
    with init show ?thesis by simp
  next
    assume "\<exists>fid passphrase parent canonical_id enc_name name body_w.
           p_file_id ?data = Some fid
         \<and> lookup_file example_env (catalog example_world) fid = Inr (parent, canonical_id)
         \<and> original_name parent = Some name
         \<and> redact_body example_env ?data passphrase parent canonical_id (str_lower example_env (py_str ''Alice''))
               (path_join (ensure_storage_dir example_env) enc_name)
               (tmp_plain_path example_env name) (tmp_redacted_path example_env name) example_world
             = (fst ?r, body_w)
         \<and> catalog (snd ?r) = catalog body_w
         \<and> (\<forall>p \<in> {tmp_plain_path example_env name, tmp_redacted_path example_env name}.
               files (snd ?r) p = None
             \<or> (remove_fails example_env p \<and> p \<in> set (warnings (snd ?r))
                  \<and> files (snd ?r) p = files body_w p))"
    then obtain fid parent canonical_id name where
      a: "p_file_id ?data = Some fid" and
      b: "lookup_file example_env (catalog example_world) fid = Inr (parent, canonical_id)" and
      c: "original_name parent = Some name" and
      d: "\<forall>p \<in> {tmp_plain_path example_env name, tmp_redacted_path example_env name}.
               files (snd ?r) p = None
             \<or> (remove_fails example_env p \<and> p \<in> set (warnings (snd ?r)))"
      by blast
    from a have "fid = py_str ''f1''" by (simp add: example_payload_def)
    with b have "parent = example_parent"
      by (simp add: example_env_def example_world_def py_str_def)
    with c have "name = py_str ''a.pdf''" by (simp add: example_parent_def)
    with d ok show ?thesis by simp
  qed
  with f show ?thesis by simp
qed

subsection \<open>C6: a requester who is not the owner\<close>

text \<open>
  As stated, C6 fails: the body is validated before the record is looked up, so a request
  without a passphrase is answered with 400 whoever sends it. Here the record of \<open>f1\<close> is
  owned by \<open>alice\<close>, the requester is \<open>bob\<close>, and the answer is \<open>BadRequest\<close>.
\<close>

theorem non_owner_without_passphrase_is_bad_request:
  "lookup_file example_env (catalog example_world) (py_str ''f1'')
     = Inr (example_parent, py_str ''f1'')
   \<and> owner example_parent \<noteq> Some (str_lower example_env (py_str ''Bob''))
   \<and> redact_file example_env (example_payload\<lparr>p_passphrase := None\<rparr>) (py_str ''Bob'')
        example_world = (Inl BadRequest, example_world)
   \<and> http_status BadRequest = 400"
  by (simp add: example_defs redact_file_def py_str_def ascii_lower_def)

text \<open>
  \<^bold>\<open>C6, amended.\<close> For every request that carries a file identifier and a passphrase and
  whose parent record is found, if the requester (the lower-cased authenticated address)
  differs from the owner of the record, the request fails with \<open>Forbidden\<close> and leaves the
  world as it found it: no file has been written and no record inserted, whatever the
  decryption, redaction, encryption and insert functions are.
\<close>

theorem non_owner_is_forbidden:
  assumes "p_file_id data = Some fid" "fid \<noteq> []"
    and "p_passphrase data = Some passphrase" "passphrase \<noteq> []"
    and "lookup_file env (catalog w) fid = Inr (parent, canonical_id)"
    and "owner parent \<noteq> Some (str_lower env address)"
  shows "redact_file env data address w = (Inl Forbidden, w) \<and> http_status Forbidden = 403"
  using assms by (simp add: redact_file_def)

theorem non_owner_is_forbidden_witness:
  "owner example_parent \<noteq> Some (str_lower example_env (py_str ''Bob''))
   \<and> redact_file example_env example_payload (py_str ''Bob'') example_world
        = (Inl Forbidden, example_world)"
proof -
  have 1: "p_file_id example_payload = Some (py_str ''f1'')" "py_str ''f1'' \<noteq> []"
    and 2: "p_passphrase example_payload = Some (py_str ''pw'')" "py_str ''pw'' \<noteq> []"
    and 3: "lookup_file example_env (catalog example_world) (py_str ''f1'')
              = Inr (example_parent, py_str ''f1'')"
    and 4: "owner example_parent \<noteq> Some (str_lower example_env (py_str ''Bob''))"
    by (simp_all add: example_defs py_str_def ascii_lower_def)
  from non_owner_is_forbidden [OF 1 2 3 4] 4 show ?thesis by simp
qed

subsection \<open>C7: \<open>removed_terms\<close> of the PDF redactor\<close>

text \<open>
  \<^bold>\<open>C7.\<close> When the PDF redactor succeeds, a term is in \<open>removed_terms\<close> exactly when it is
  one of the \<open>matched_texts\<close>, it was searched for, and the search found it on some page.
  The empty string is never searched for, so nothing is found for it and it is never
  listed.
\<close>

theorem pdf_removed_terms_iff_found:
  assumes run: "PDFRedactor_apply_redactions lib H ident request fls = Inr (res, fls')"
    and src: "fls (source_path request) = Some src"
    and doc: "fitz_open lib src = Some pages"
  shows "tm \<in> set (removed_terms res) \<longleftrightarrow>
           tm \<in> set (matched_texts request) \<and> tm \<noteq> [] \<and> (\<exists>c \<in> set pages. search_for lib c tm \<noteq> [])"
proof -
  from run obtain src' contents doc1 redacted_terms where
    a: "fls (source_path request) = Some src'" and
    b: "fitz_open lib src' = Some contents" and
    c: "search_pages lib (map (\<lambda>c. \<lparr>content = c, annots = []\<rparr>) contents) (matched_texts request) [] = Some (doc1, redacted_terms)" and
    d: "removed_terms res = sort (remdups redacted_terms)"
    by (auto elim!: pdf_result_cases)
  from a b src doc have e: "contents = pages" by simp
  from search_pages_result [OF c] d e show ?thesis by auto
qed

text \<open>In the worked instance \<open>123\<close> is found on the page and listed; \<open>zzz\<close> is not found and not
  listed.\<close>

theorem pdf_removed_terms_iff_found_witness:
  "py_str ''123'' \<in> set (removed_terms example_result)
   \<and> (\<exists>c \<in> set [''SSN 123'']. search_for example_pdf c (py_str ''123'') \<noteq> [])
   \<and> py_str ''zzz'' \<notin> set (removed_terms example_result)
   \<and> \<not> (\<exists>c \<in> set [''SSN 123'']. search_for example_pdf c (py_str ''zzz'') \<noteq> [])"
proof -
  have src: "example_files (source_path example_request) = Some ''SSN 123''"
    by (simp add: example_defs py_str_def)
  have doc: "fitz_open example_pdf ''SSN 123'' = Some [''SSN 123'']"
    by (simp add: example_defs)
  have a: "\<exists>c \<in> set [''SSN 123'']. search_for example_pdf c (py_str ''123'') \<noteq> []"
    by (simp add: example_defs py_str_def)
  have b: "\<not> (\<exists>c \<in> set [''SSN 123'']. search_for example_pdf c (py_str ''zzz'') \<noteq> [])"
    by (simp add: example_defs py_str_def)
  have m: "py_str ''123'' \<in> set (matched_texts example_request)" "py_str ''123'' \<noteq> []"
    by (simp_all add: example_defs py_str_def)
  from pdf_removed_terms_iff_found [OF example_pdf_run src doc, of "py_str ''123''"] a m
  have 1: "py_str ''123'' \<in> set (removed_terms example_result)" by blast
  from pdf_removed_terms_iff_found [OF example_pdf_run src doc, of "py_str ''zzz''"] b
  have 2: "py_str ''zzz'' \<notin> set (removed_terms example_result)" by blast
  from 1 a 2 b show ?thesis by blast
qed

subsection \<open>C8: the term set of the DOCX redactor\<close>

text \<open>
  \<^bold>\<open>C8.\<close> Only \<open>custom_terms\<close> is filtered for empty strings (lemma \<open>docx_terms_set\<close>). The
  endpoint passes \<open>patterns_applied\<close> to the redactor as they are, so a body with the
  pattern label \<open>""\<close> puts the empty string into the term set.
\<close>

theorem docx_terms_keep_empty_pattern:
  "[] \<in> set (docx_terms
       (make_request (example_payload\<lparr>p_patterns_applied := [[]]\<rparr>) (py_str ''f1'')
          (py_str ''/srv/in.docx'') (py_str ''/srv/out.docx'') [] (py_str ''alice'')))"
  by (simp add: example_defs docx_terms_def make_request_def)

subsection \<open>C9: the names of the temporary files\<close>

text \<open>
  As stated, C9 fails: the paths are built from the storage directory, the clock reading
  in milliseconds and the original name of the parent, and from nothing else of the
  request. Two different requests for the same parent whose clock readings agree are given
  the same two paths.
\<close>

theorem same_millisecond_same_temp_paths:
  "example_payload \<noteq> example_payload_later
   \<and> time_ms example_env 0 = time_ms example_env_later 0
   \<and> tmp_plain_path example_env (py_str ''a.pdf'')
       = tmp_plain_path example_env_later (py_str ''a.pdf'')
   \<and> tmp_redacted_path example_env (py_str ''a.pdf'')
       = tmp_redacted_path example_env_later (py_str ''a.pdf'')"
  by (simp add: example_defs example_defs2 tmp_plain_path_def tmp_redacted_path_def py_str_def)

text \<open>
  \<^bold>\<open>C9, amended.\<close> The name of each temporary file is determined by the millisecond
  reading of the clock and the original name of the parent record, and determines them:
  two requests are given the same staged name exactly when both agree. Two requests for
  the same parent are told apart by the timestamp alone.
\<close>

theorem tmp_names_equal_iff_same_ms_and_name:
  "(tmp_plain_name t1 n1 = tmp_plain_name t2 n2 \<longleftrightarrow> t1 = t2 \<and> n1 = n2)
   \<and> (tmp_redacted_name t1 n1 = tmp_redacted_name t2 n2 \<longleftrightarrow> t1 = t2 \<and> n1 = n2)"
proof -
  have "tmp_plain_name t1 n1 = tmp_plain_name t2 n2 \<Longrightarrow> t1 = t2 \<and> n1 = n2"
    by (rule stamped_name_inj) (simp add: tmp_plain_name_def py_str_def)
  moreover have "tmp_redacted_name t1 n1 = tmp_redacted_name t2 n2 \<Longrightarrow> t1 = t2 \<and> n1 = n2"
    by (rule stamped_name_inj) (simp add: tmp_redacted_name_def py_str_def)
  ultimately show ?thesis by blast
qed

theorem tmp_names_equal_iff_same_ms_and_name_witness:
  "tmp_plain_name 1000 (py_str ''a.pdf'') \<noteq> tmp_plain_name 1001 (py_str ''a.pdf'')
   \<and> tmp_redacted_name 1000 (py_str ''a.pdf'') \<noteq> tmp_redacted_name 1000 (py_str ''b.pdf'')"
  using tmp_names_equal_iff_same_ms_and_name [of 1000 "py_str ''a.pdf''" 1001 "py_str ''a.pdf''"]
    tmp_names_equal_iff_same_ms_and_name [of 1000 "py_str ''a.pdf''" 1000 "py_str ''b.pdf''"]
  by (simp add: py_str_def)

subsection \<open>C10: the PDF redactor ignores custom terms and pattern labels\<close>




end
